theory Spec2Isabelle
  imports Main "HOL-Library.Sublist" "HOL-Library.List_Lexorder" "HOL-Library.Char_ord"
begin

section \<open>Vendor contact enrichment (find_business_address.py)\<close>

text \<open>
  A shallow embedding of \<^verbatim>\<open>find_business_address.py\<close>: the address decomposer
  \<^verbatim>\<open>_parse_address_components\<close>, the record merge in the row loop of
  \<^verbatim>\<open>process_vendor_csv\<close>, the website helpers \<^verbatim>\<open>_clean_domain\<close> and
  \<^verbatim>\<open>_extract_email_from_website\<close>, and the batch lookup \<^verbatim>\<open>find_vendor_contacts\<close>.
  Python names that start with an underscore lose it here.

  A Python \<^verbatim>\<open>str\<close> is a \<^typ>\<open>string\<close>, one \<^typ>\<open>char\<close> for each code point; only the
  code points 0 to 255 are covered. An \<^verbatim>\<open>Optional[str]\<close> is a \<^typ>\<open>string option\<close>,
  \<^term>\<open>None\<close> being Python's \<^verbatim>\<open>None\<close>.
\<close>

subsection \<open>Python string operations\<close>

text \<open>
  \<^verbatim>\<open>s.split(sep)\<close> with a separator: the leftmost occurrences of \<^verbatim>\<open>sep\<close>, not
  overlapping, cut the string; the result always has at least one segment. Python raises
  ValueError for an empty separator; the program only passes the literals \<^verbatim>\<open>','\<close>,
  \<^verbatim>\<open>'mailto:'\<close> and \<^verbatim>\<open>'?'\<close>, and at an empty separator this function leaves the
  string in one piece.
\<close>

function str_split :: "string \<Rightarrow> string \<Rightarrow> string list" where
  "str_split sep [] = [[]]"
| "str_split sep (c # cs) =
     (if sep \<noteq> [] \<and> prefix sep (c # cs)
      then [] # str_split sep (drop (length sep) (c # cs))
      else (case str_split sep cs of
              seg # segs \<Rightarrow> (c # seg) # segs
            | [] \<Rightarrow> [[c]]))"
  by pat_completeness auto
termination
  by (relation "measure (\<lambda>(sep, s). length s)") (auto simp: Suc_diff_le)

text \<open>\<^verbatim>\<open>sep.join(parts)\<close>.\<close>

fun str_join :: "string \<Rightarrow> string list \<Rightarrow> string" where
  "str_join sep [] = []"
| "str_join sep [x] = x"
| "str_join sep (x # y # ys) = x @ sep @ str_join sep (y # ys)"

text \<open>
  \<^verbatim>\<open>c.isspace()\<close> on the code points 0 to 255: tab, line feed, vertical tab, form feed,
  carriage return, the four separators 0x1c to 0x1f, space, next line (0x85) and the
  no-break space (0xa0). \<^verbatim>\<open>s.strip()\<close> removes such characters at both ends.
\<close>

definition isspace :: "char \<Rightarrow> bool" where
  "isspace c = (of_char c \<in> {9, 10, 11, 12, 13, 28, 29, 30, 31, 32, 133, 160 :: nat})"

definition strip :: "string \<Rightarrow> string" where
  "strip s = rev (dropWhile isspace (rev (dropWhile isspace s)))"

text \<open>
  Truthiness of an \<^verbatim>\<open>Optional[str]\<close> and the \<^verbatim>\<open>or\<close> of two of them: \<^verbatim>\<open>None\<close> and
  the empty string are false, and \<^verbatim>\<open>a or b\<close> is \<^verbatim>\<open>a\<close> when \<^verbatim>\<open>a\<close> is true, else
  \<^verbatim>\<open>b\<close>.
\<close>

fun truthy :: "string option \<Rightarrow> bool" where
  "truthy None = False"
| "truthy (Some s) = (s \<noteq> [])"

definition py_or :: "string option \<Rightarrow> string option \<Rightarrow> string option" where
  "py_or a b = (if truthy a then a else b)"

subsection \<open>The address decomposer\<close>

text \<open>
  \<^verbatim>\<open>_parse_address_components\<close> (lines 169 to 189). The dictionary it returns always has
  the three keys addr1, addr2 and addr4, so it is a record. \<^verbatim>\<open>parts[1:-1]\<close> on a list
  of at least two elements is the list without its first and its last element.
\<close>

record address_components =
  addr1 :: string
  addr2 :: string
  addr4 :: string

definition parse_address_components :: "string \<Rightarrow> address_components" where
  "parse_address_components address_str =
     (let parts = map strip (str_split '','' address_str) in
      if length parts \<ge> 2
      then \<lparr>addr1 = hd parts, addr2 = str_join '', '' (butlast (tl parts)), addr4 = last parts\<rparr>
      else \<lparr>addr1 = address_str, addr2 = [], addr4 = []\<rparr>)"

subsection \<open>Contacts and vendor rows\<close>

text \<open>The pydantic model \<^verbatim>\<open>VendorContact\<close> (lines 54 to 59).\<close>

record VendorContact =
  name :: string
  address :: "string option"
  phone :: "string option"
  email :: "string option"
  website :: "string option"

text \<open>\<^verbatim>\<open>VendorContact(name=name)\<close>: every optional field takes its default \<^verbatim>\<open>None\<close>.\<close>

definition empty_contact :: "string \<Rightarrow> VendorContact" where
  "empty_contact nm = \<lparr>name = nm, address = None, phone = None, email = None, website = None\<rparr>"

text \<open>
  A row as \<^verbatim>\<open>csv.DictReader\<close> yields it: a dictionary from column names to cells. A cell
  is a string, or \<^verbatim>\<open>None\<close> where the line was shorter than the header. The outer
  \<^typ>\<open>'a option\<close> of the map says whether the key is in the dictionary, the inner one is
  the cell. The surplus fields of a line longer than the header, which DictReader keeps
  under the key \<^verbatim>\<open>None\<close>, are not part of a row here.
\<close>

type_synonym cell = "string option"
type_synonym row = "string \<rightharpoonup> cell"


definition row_get_default :: "row \<Rightarrow> string \<Rightarrow> string \<Rightarrow> cell" where
  "row_get_default r k d = (case r k of None \<Rightarrow> Some d | Some v \<Rightarrow> v)"

text \<open>
  The columns \<^verbatim>\<open>process_vendor_csv\<close> requires of the header (lines 226 to 236). DictReader
  gives every row a key for every column of the header, so every row the merge sees has
  them.
\<close>

definition required_cols :: "string list" where
  "required_cols =
     [''company'', ''addr1'', ''addr2'', ''addr3'', ''addr4'',
      ''shipaddr1'', ''shipaddr2'', ''shipaddr3'', ''shipaddr4'',
      ''phone'', ''shiphone'', ''email'', ''shipmail'']"

definition has_required_cols :: "row \<Rightarrow> bool" where
  "has_required_cols r = list_all (\<lambda>k. r k \<noteq> None) required_cols"

subsection \<open>The record merge\<close>

text \<open>
  The body of the row loop of \<^verbatim>\<open>process_vendor_csv\<close> (lines 254 to 270), for the contact
  that \<^verbatim>\<open>contacts.get(name)\<close> gave. A pydantic model object is always true, so
  \<^verbatim>\<open>if contact\<close> asks whether the contact is there. The assignments run in the order of
  the source, each on the row the one before it left.
\<close>

definition merge_address :: "VendorContact option \<Rightarrow> row \<Rightarrow> row" where
  "merge_address contact r =
     (case contact of
        None \<Rightarrow> r
      | Some c \<Rightarrow>
          (case address c of
             None \<Rightarrow> r
           | Some a \<Rightarrow>
               if a = [] then r
               else
                 (let comps = parse_address_components a;
                      r1 = r(''addr1'' \<mapsto> Some (addr1 comps));
                      r2 = r1(''addr2'' \<mapsto> Some (addr2 comps));
                      r3 = r2(''addr4'' \<mapsto> Some (addr4 comps));
                      r4 = r3(''shipaddr1'' \<mapsto> Some (addr1 comps));
                      r5 = r4(''shipaddr2'' \<mapsto> Some (addr2 comps));
                      r6 = r5(''shipaddr3'' \<mapsto> row_get_default r5 ''addr3'' []);
                      r7 = r6(''shipaddr4'' \<mapsto> Some (addr4 comps))
                  in r7)))"

definition merge_phone_email :: "VendorContact option \<Rightarrow> row \<Rightarrow> row" where
  "merge_phone_email contact r =
     (case contact of
        None \<Rightarrow> r
      | Some c \<Rightarrow>
          (let r1 = r(''phone'' \<mapsto> py_or (phone c) (row_get_default r ''phone'' []));
               r2 = r1(''shiphone'' \<mapsto> py_or (phone c) (row_get_default r1 ''shiphone'' []));
               r3 = r2(''email'' \<mapsto> py_or (email c) (row_get_default r2 ''email'' []));
               r4 = r3(''shipmail'' \<mapsto> py_or (email c) (row_get_default r3 ''shipmail'' []))
           in r4))"

definition merge :: "VendorContact option \<Rightarrow> row \<Rightarrow> row" where
  "merge contact r = merge_phone_email contact (merge_address contact r)"

subsection \<open>Errors and the outside world\<close>

text \<open>
  An exception is a value. \<open>EnvironmentError\<close>, \<open>ValueError\<close>, \<open>HTTPError\<close>, \<open>KeyError\<close>
  and \<open>IndexError\<close> are raised by the program text itself or by a library function
  modelled here; \<open>LibraryError\<close> is any other exception that a call into requests, geopy,
  the JSON decoder or BeautifulSoup raises, named by its class. Every value of this type is
  an instance of \<^verbatim>\<open>Exception\<close>, which \<^verbatim>\<open>except Exception\<close> catches; an interrupt
  of the process is not modelled.
\<close>

datatype error =
    EnvironmentError
  | ValueError
  | HTTPError
  | KeyError
  | IndexError
  | LibraryError string


text \<open>
  A \<^verbatim>\<open>requests.Response\<close>: the status code, \<^verbatim>\<open>resp.text\<close>, and what \<^verbatim>\<open>resp.json()\<close>
  returns or raises. The decoded JSON is typed by what the program reads of it: for the text
  search the value under \<^verbatim>\<open>"results"\<close> when the key is there, a list of candidate
  objects; for the details request the object under \<^verbatim>\<open>"result"\<close> when the key is there,
  with its string fields. A body of another shape makes a later step of the same
  \<^verbatim>\<open>try\<close> block raise before any further request is made; the error alternative of
  \<open>body_json\<close> stands for that too.
\<close>

record 'j response =
  status_code :: nat
  body_text :: string
  body_json :: "error + 'j"

type_synonym candidate = "string \<rightharpoonup> string"
type_synonym details = "string \<rightharpoonup> string"

text \<open>
  Everything the program asks of its environment, with the state \<open>'w\<close> of the outside
  world passed through every network call, so that two requests with the same arguments may
  be answered differently. \<open>'c\<close> is the type of a coordinate (a Python float, only handed
  on to the text search).
  \<^item> \<open>getenv\<close>: \<^verbatim>\<open>os.getenv\<close>;
  \<^item> \<open>nominatim_geocode\<close>: \<^verbatim>\<open>Nominatim(...).geocode(location_str)\<close>, which raises,
    returns \<^verbatim>\<open>None\<close> or returns a location, here its latitude and longitude;
  \<^item> \<open>get_textsearch\<close>: the \<^verbatim>\<open>requests.get\<close> of line 125, by query, location, radius
    and key;
  \<^item> \<open>get_details\<close>: the \<^verbatim>\<open>requests.get\<close> of line 141, by place id and key;
  \<^item> \<open>get_page\<close>: \<^verbatim>\<open>requests.get(url, timeout=5)\<close> of line 71;
  \<^item> \<open>html_anchor_hrefs\<close>: BeautifulSoup's parse of a page, as the \<^verbatim>\<open>href\<close> values of
    its \<^verbatim>\<open>a\<close> elements in document order;
  \<^item> \<open>bracketed_netloc_ok\<close>: whether \<^verbatim>\<open>urllib.parse\<close> accepts a network location that
    holds an IP literal in brackets (it hands the literal to the \<^verbatim>\<open>ipaddress\<close> module;
    versions before 3.11.4 accept every one).
\<close>

record ('w, 'c) world =
  getenv :: "string \<Rightarrow> string option"
  nominatim_geocode :: "string \<Rightarrow> 'w \<Rightarrow> (error + ('c \<times> 'c) option) \<times> 'w"
  get_textsearch ::
    "string \<Rightarrow> 'c \<times> 'c \<Rightarrow> int \<Rightarrow> string \<Rightarrow> 'w \<Rightarrow> (error + (candidate list option) response) \<times> 'w"
  get_details :: "string \<Rightarrow> string \<Rightarrow> 'w \<Rightarrow> (error + (details option) response) \<times> 'w"
  get_page :: "string \<Rightarrow> 'w \<Rightarrow> (error + unit response) \<times> 'w"
  html_anchor_hrefs :: "string \<Rightarrow> error + string list"
  bracketed_netloc_ok :: "string \<Rightarrow> bool"

text \<open>\<^verbatim>\<open>resp.raise_for_status()\<close>: HTTPError for a status from 400 to 599.\<close>

definition raise_for_status :: "'j response \<Rightarrow> error + unit" where
  "raise_for_status resp =
     (if 400 \<le> status_code resp \<and> status_code resp < 600 then Inl HTTPError else Inr ())"

subsection \<open>The geocoder adapter\<close>

text \<open>\<^verbatim>\<open>_geocode_location\<close> (lines 61 to 67). A geopy location is always true.\<close>

definition geocode_location ::
  "('w, 'c) world \<Rightarrow> string \<Rightarrow> 'w \<Rightarrow> (error + 'c \<times> 'c) \<times> 'w" where
  "geocode_location W location_str w =
     (case nominatim_geocode W location_str w of
        (Inl e, w') \<Rightarrow> (Inl e, w')
      | (Inr None, w') \<Rightarrow> (Inl ValueError, w')
      | (Inr (Some (latitude, longitude)), w') \<Rightarrow> (Inr (latitude, longitude), w'))"

subsection \<open>The website email scraper\<close>

text \<open>
  \<^verbatim>\<open>soup.select_one('a[href^="mailto:"]')\<close>: the first anchor whose \<^verbatim>\<open>href\<close> starts
  with \<^verbatim>\<open>mailto:\<close>.
\<close>

definition select_one_mailto :: "string list \<Rightarrow> string option" where
  "select_one_mailto hrefs = find (prefix ''mailto:'') hrefs"

text \<open>
  \<^verbatim>\<open>link["href"].split("mailto:")[1].split("?")[0]\<close>, with the IndexError of an index
  out of range.
\<close>

definition mailto_address :: "string \<Rightarrow> error + string" where
  "mailto_address href =
     (case str_split ''mailto:'' href of
        _ # a # _ \<Rightarrow>
          (case str_split ''?'' a of
             x # _ \<Rightarrow> Inr x
           | [] \<Rightarrow> Inl IndexError)
      | _ \<Rightarrow> Inl IndexError)"

text \<open>
  The \<^verbatim>\<open>try\<close> block of \<^verbatim>\<open>_extract_email_from_website\<close> (lines 71 to 76); when no
  link is found it falls through to the \<^verbatim>\<open>return None\<close> of line 79.
\<close>

definition scrape_email ::
  "('w, 'c) world \<Rightarrow> string \<Rightarrow> 'w \<Rightarrow> (error + string option) \<times> 'w" where
  "scrape_email W url w =
     (case get_page W url w of
        (Inl e, w') \<Rightarrow> (Inl e, w')
      | (Inr resp, w') \<Rightarrow>
          (case raise_for_status resp of
             Inl e \<Rightarrow> (Inl e, w')
           | Inr _ \<Rightarrow>
               (case html_anchor_hrefs W (body_text resp) of
                  Inl e \<Rightarrow> (Inl e, w')
                | Inr hrefs \<Rightarrow>
                    (case select_one_mailto hrefs of
                       None \<Rightarrow> (Inr None, w')
                     | Some href \<Rightarrow>
                         (case mailto_address href of
                            Inl e \<Rightarrow> (Inl e, w')
                          | Inr a \<Rightarrow> (Inr (Some a), w'))))))"

text \<open>
  \<^verbatim>\<open>_extract_email_from_website\<close> (lines 69 to 79): \<^verbatim>\<open>except Exception\<close> logs and the
  function returns \<^verbatim>\<open>None\<close>.
\<close>

definition extract_email_from_website ::
  "('w, 'c) world \<Rightarrow> string \<Rightarrow> 'w \<Rightarrow> string option \<times> 'w" where
  "extract_email_from_website W url w =
     (case scrape_email W url w of
        (Inl e, w') \<Rightarrow> (None, w')
      | (Inr found, w') \<Rightarrow> (found, w'))"

subsection \<open>Website normalisation\<close>

text \<open>
  \<^verbatim>\<open>urllib.parse.urlparse\<close> is the standard library's (CPython 3.11 and 3.12,
  \<^verbatim>\<open>urlsplit\<close> in \<^verbatim>\<open>Lib/urllib/parse.py\<close>), not the repository's. It strips leading
  control characters and spaces, removes tab, carriage return and line feed, takes as the
  scheme what stands before the first colon when that starts with an ASCII letter and
  consists of scheme characters, and reads a network location, up to the next slash,
  question mark or hash, only after two slashes. Only the scheme and the network location
  are computed, since \<^verbatim>\<open>_clean_domain\<close> reads nothing else; the split of path, query
  and fragment changes neither. \<^verbatim>\<open>_checknetloc\<close> raises only for characters whose NFKC
  form holds one of \<^verbatim>\<open>/?#@:\<close>, and no code point up to 255 has such a form, so it is
  left out.
\<close>

record parse_result =
  scheme :: string
  netloc :: string

definition c0_control_or_space :: "char \<Rightarrow> bool" where
  "c0_control_or_space c = ((of_char c :: nat) \<le> 32)"

definition unsafe_url_byte :: "char \<Rightarrow> bool" where
  "unsafe_url_byte c = ((of_char c :: nat) \<in> {9, 13, 10})"

definition ascii_alpha :: "char \<Rightarrow> bool" where
  "ascii_alpha c =
     (let n = (of_char c :: nat) in (65 \<le> n \<and> n \<le> 90) \<or> (97 \<le> n \<and> n \<le> 122))"

definition scheme_char :: "char \<Rightarrow> bool" where
  "scheme_char c =
     (let n = (of_char c :: nat)
      in (97 \<le> n \<and> n \<le> 122) \<or> (65 \<le> n \<and> n \<le> 90) \<or> (48 \<le> n \<and> n \<le> 57)
         \<or> c = CHR ''+'' \<or> c = CHR ''-'' \<or> c = CHR ''.'')"

text \<open>\<^verbatim>\<open>s.lower()\<close> on the code points 0 to 255.\<close>

definition lower_char :: "char \<Rightarrow> char" where
  "lower_char c =
     (let n = (of_char c :: nat)
      in if (65 \<le> n \<and> n \<le> 90) \<or> (192 \<le> n \<and> n \<le> 222 \<and> n \<noteq> 215)
         then char_of (n + 32) else c)"

text \<open>\<^verbatim>\<open>s.find(c)\<close>: the index of the first occurrence, or -1.\<close>

definition str_find :: "char \<Rightarrow> string \<Rightarrow> int" where
  "str_find c s = (if c \<in> set s then int (length (takeWhile (\<lambda>x. x \<noteq> c) s)) else - 1)"

definition urlparse :: "('w, 'c) world \<Rightarrow> string \<Rightarrow> error + parse_result" where
  "urlparse W raw_url =
     (let url0 = dropWhile c0_control_or_space raw_url;
          url1 = filter (\<lambda>c. \<not> unsafe_url_byte c) url0;
          i = str_find CHR '':'' url1;
          (scheme_part, url2) =
             (if i > 0 \<and> ascii_alpha (hd url1) \<and> list_all scheme_char (take (nat i) url1)
              then (map lower_char (take (nat i) url1), drop (nat i + 1) url1)
              else ([], url1))
      in if take 2 url2 = ''//''
         then
           (let loc = takeWhile (\<lambda>c. c \<notin> {CHR ''/'', CHR ''?'', CHR ''#''}) (drop 2 url2) in
            if (CHR ''['' \<in> set loc \<and> CHR '']'' \<notin> set loc)
               \<or> (CHR '']'' \<in> set loc \<and> CHR ''['' \<notin> set loc)
            then Inl ValueError
            else if CHR ''['' \<in> set loc \<and> CHR '']'' \<in> set loc \<and> \<not> bracketed_netloc_ok W loc
            then Inl ValueError
            else Inr \<lparr>scheme = scheme_part, netloc = loc\<rparr>)
         else Inr \<lparr>scheme = scheme_part, netloc = []\<rparr>)"

text \<open>\<^verbatim>\<open>_clean_domain\<close> (lines 81 to 87).\<close>

definition clean_domain :: "('w, 'c) world \<Rightarrow> string \<Rightarrow> error + string" where
  "clean_domain W raw_url =
     (case urlparse W raw_url of
        Inl e \<Rightarrow> Inl e
      | Inr parts \<Rightarrow> Inr (scheme parts @ ''://'' @ netloc parts))"

subsection \<open>The batch lookup\<close>

text \<open>
  The \<^verbatim>\<open>try\<close> block of the loop of \<^verbatim>\<open>find_vendor_contacts\<close>, in its three stages.

  The search stage (lines 125 to 138): the text search request, \<^verbatim>\<open>raise_for_status\<close>,
  \<^verbatim>\<open>resp.json().get("results", [])\<close>, and \<^verbatim>\<open>items[0]["place_id"]\<close>, which raises
  KeyError when the first candidate has no such key. The result is \<^term>\<open>None\<close> when there
  is no candidate, else the place id of the first one.
\<close>

definition search_stage ::
  "('w, 'c) world \<Rightarrow> 'c \<Rightarrow> 'c \<Rightarrow> int \<Rightarrow> string \<Rightarrow> string \<Rightarrow> 'w \<Rightarrow> (error + string option) \<times> 'w" where
  "search_stage W lat lng radius api_key nm w =
     (case get_textsearch W nm (lat, lng) radius api_key w of
        (Inl e, w') \<Rightarrow> (Inl e, w')
      | (Inr resp, w') \<Rightarrow>
          (case raise_for_status resp of
             Inl e \<Rightarrow> (Inl e, w')
           | Inr _ \<Rightarrow>
               (case body_json resp of
                  Inl e \<Rightarrow> (Inl e, w')
                | Inr body \<Rightarrow>
                    (case (case body of None \<Rightarrow> [] | Some found \<Rightarrow> found) of
                       [] \<Rightarrow> (Inr None, w')
                     | item # _ \<Rightarrow>
                         (case item ''place_id'' of
                            None \<Rightarrow> (Inl KeyError, w')
                          | Some place_id \<Rightarrow> (Inr (Some place_id), w'))))))"

text \<open>
  The details stage (lines 141 to 145): the details request and
  \<^verbatim>\<open>.json().get("result", {})\<close>; the status of the response is not looked at.
\<close>

definition details_stage ::
  "('w, 'c) world \<Rightarrow> string \<Rightarrow> string \<Rightarrow> 'w \<Rightarrow> (error + details) \<times> 'w" where
  "details_stage W place_id api_key w =
     (case get_details W place_id api_key w of
        (Inl e, w') \<Rightarrow> (Inl e, w')
      | (Inr resp, w') \<Rightarrow>
          (case body_json resp of
             Inl e \<Rightarrow> (Inl e, w')
           | Inr body \<Rightarrow> (Inr (case body of None \<Rightarrow> Map.empty | Some det \<Rightarrow> det), w')))"

text \<open>
  The contact stage (lines 147 to 159): the website is cleaned when it is true, the contact
  is built, and the scraper is called when the contact's website is true.
\<close>

definition contact_stage ::
  "('w, 'c) world \<Rightarrow> string \<Rightarrow> details \<Rightarrow> 'w \<Rightarrow> (error + VendorContact) \<times> 'w" where
  "contact_stage W nm det w =
     (let raw_site = det ''website'' in
      case (case raw_site of
              None \<Rightarrow> Inr None
            | Some raw \<Rightarrow> if raw = [] then Inr None else map_sum id Some (clean_domain W raw)) of
        Inl e \<Rightarrow> (Inl e, w)
      | Inr clean_site \<Rightarrow>
          (let contact = \<lparr>name = nm,
                          address = det ''formatted_address'',
                          phone = det ''formatted_phone_number'',
                          email = None,
                          website = clean_site\<rparr>
           in case website contact of
                None \<Rightarrow> (Inr contact, w)
              | Some site \<Rightarrow>
                  if site = [] then (Inr contact, w)
                  else (case extract_email_from_website W site w of
                          (found, w') \<Rightarrow> (Inr (contact\<lparr>email := found\<rparr>), w'))))"

text \<open>
  The whole \<^verbatim>\<open>try\<close> block (lines 125 to 161): \<open>Inr\<close> is the contact that the block
  stores under the name (the empty one on the \<^verbatim>\<open>continue\<close> of line 136), \<open>Inl\<close> an
  exception that leaves the block.
\<close>

definition lookup_body ::
  "('w, 'c) world \<Rightarrow> 'c \<Rightarrow> 'c \<Rightarrow> int \<Rightarrow> string \<Rightarrow> string \<Rightarrow> 'w \<Rightarrow> (error + VendorContact) \<times> 'w" where
  "lookup_body W lat lng radius api_key nm w =
     (case search_stage W lat lng radius api_key nm w of
        (Inl e, w1) \<Rightarrow> (Inl e, w1)
      | (Inr None, w1) \<Rightarrow> (Inr (empty_contact nm), w1)
      | (Inr (Some place_id), w1) \<Rightarrow>
          (case details_stage W place_id api_key w1 of
             (Inl e, w2) \<Rightarrow> (Inl e, w2)
           | (Inr det, w2) \<Rightarrow> contact_stage W nm det w2))"

text \<open>
  The loop (lines 121 to 165) over the names, on the dictionary \<^verbatim>\<open>results\<close>:
  \<^verbatim>\<open>except Exception\<close> stores the empty contact and the loop goes on.
\<close>

fun lookup_loop ::
  "('w, 'c) world \<Rightarrow> 'c \<Rightarrow> 'c \<Rightarrow> int \<Rightarrow> string \<Rightarrow> string list \<Rightarrow>
   (string \<rightharpoonup> VendorContact) \<Rightarrow> 'w \<Rightarrow> (string \<rightharpoonup> VendorContact) \<times> 'w" where
  "lookup_loop W lat lng radius api_key [] results w = (results, w)"
| "lookup_loop W lat lng radius api_key (nm # names) results w =
     (case lookup_body W lat lng radius api_key nm w of
        (Inl e, w') \<Rightarrow>
          lookup_loop W lat lng radius api_key names (results(nm \<mapsto> empty_contact nm)) w'
      | (Inr contact, w') \<Rightarrow>
          lookup_loop W lat lng radius api_key names (results(nm \<mapsto> contact)) w')"

text \<open>
  The key of lines 100 to 104: the argument, or else one of the two environment variables.
\<close>

definition resolve_api_key :: "('w, 'c) world \<Rightarrow> string option \<Rightarrow> string option" where
  "resolve_api_key W google_api_key =
     py_or google_api_key
       (py_or (getenv W ''GOOGLE_PLACES_API_KEY'') (getenv W ''GOOGLE_API_KEY''))"

text \<open>\<^verbatim>\<open>find_vendor_contacts\<close> (lines 89 to 167).\<close>

definition find_vendor_contacts ::
  "('w, 'c) world \<Rightarrow> string list \<Rightarrow> string option \<Rightarrow> int \<Rightarrow> string option \<Rightarrow> 'w \<Rightarrow>
   (error + (string \<rightharpoonup> VendorContact)) \<times> 'w" where
  "find_vendor_contacts W vendor_names location_str radius google_api_key w =
     (case resolve_api_key W google_api_key of
        None \<Rightarrow> (Inl EnvironmentError, w)
      | Some api_key \<Rightarrow>
          if api_key = [] then (Inl EnvironmentError, w)
          else
            (let location_str' =
                   (case location_str of
                      None \<Rightarrow> ''New Albany, Indiana, United States''
                    | Some given \<Rightarrow> given)
             in case geocode_location W location_str' w of
                  (Inl e, w1) \<Rightarrow> (Inl e, w1)
                | (Inr (lat, lng), w1) \<Rightarrow>
                    (case lookup_loop W lat lng radius api_key vendor_names Map.empty w1 of
                       (results, w2) \<Rightarrow> (Inr results, w2))))"

subsection \<open>The rows of the vendor table\<close>






text \<open>The contact that one turn of the loop stores, and the world it leaves.\<close>

definition stored_contact ::
  "('w, 'c) world \<Rightarrow> 'c \<Rightarrow> 'c \<Rightarrow> int \<Rightarrow> string \<Rightarrow> string \<Rightarrow> 'w \<Rightarrow> VendorContact" where
  "stored_contact W lat lng radius api_key nm w =
     (case fst (lookup_body W lat lng radius api_key nm w) of
        Inl e \<Rightarrow> empty_contact nm
      | Inr contact \<Rightarrow> contact)"

subsection \<open>Values to evaluate on\<close>

definition demo_contact :: VendorContact where
  "demo_contact =
     \<lparr>name = ''Acme'', address = Some ''1 Main St, Springfield, IL 62704, USA'',
      phone = Some ''555-0100'', email = None, website = Some ''https://example.com''\<rparr>"

definition demo_row :: row where
  "demo_row =
     [''company'' \<mapsto> Some ''Acme'', ''addr1'' \<mapsto> Some ''old street'', ''addr2'' \<mapsto> Some [],
      ''addr3'' \<mapsto> Some ''Suite 4'', ''addr4'' \<mapsto> Some [],
      ''shipaddr1'' \<mapsto> Some [], ''shipaddr2'' \<mapsto> Some [], ''shipaddr3'' \<mapsto> Some ''dock'',
      ''shipaddr4'' \<mapsto> None,
      ''phone'' \<mapsto> Some ''555-0000'', ''shiphone'' \<mapsto> Some [],
      ''email'' \<mapsto> Some ''old@example.com'', ''shipmail'' \<mapsto> None]"

text \<open>A world to evaluate on; its state counts the requests made.\<close>

definition demo_world :: "(nat, int) world" where
  "demo_world =
     \<lparr>getenv = (\<lambda>var. if var = ''GOOGLE_API_KEY'' then Some ''secret'' else None),
      nominatim_geocode = (\<lambda>place n. (Inr (Some (38, - 86)), Suc n)),
      get_textsearch = (\<lambda>query anchor radius key n.
        if query = ''Acme''
        then (Inr \<lparr>status_code = 200, body_text = [],
                   body_json = Inr (Some [[''place_id'' \<mapsto> ''p1'']])\<rparr>, Suc n)
        else if query = ''Bare''
        then (Inr \<lparr>status_code = 200, body_text = [],
                   body_json = Inr (Some [[''place_id'' \<mapsto> ''p2'']])\<rparr>, Suc n)
        else if query = ''Ghost''
        then (Inr \<lparr>status_code = 200, body_text = [], body_json = Inr (Some [])\<rparr>, Suc n)
        else (Inl (LibraryError ''ConnectionError''), Suc n)),
      get_details = (\<lambda>place_id key n.
        if place_id = ''p1''
        then (Inr \<lparr>status_code = 200, body_text = [],
                   body_json = Inr (Some [''formatted_address'' \<mapsto> ''1 Main St, Springfield, IL 62704, USA'',
                                          ''formatted_phone_number'' \<mapsto> ''555-0100'',
                                          ''website'' \<mapsto> ''https://example.com/page?x=1''])\<rparr>, Suc n)
        else (Inr \<lparr>status_code = 200, body_text = [],
                   body_json = Inr (Some [''website'' \<mapsto> ''example.com/path''])\<rparr>, Suc n)),
      get_page = (\<lambda>url n.
        if url = ''https://example.com''
        then (Inr \<lparr>status_code = 200, body_text = ''<html>'', body_json = Inr ()\<rparr>, Suc n)
        else (Inl (LibraryError ''MissingSchema''), Suc n)),
      html_anchor_hrefs = (\<lambda>page. Inr [''/about'', ''mailto:info@example.com?subject=Hello'']),
      bracketed_netloc_ok = (\<lambda>loc. True)\<rparr>"

definition demo_details :: details where
  "demo_details =
     [''formatted_address'' \<mapsto> ''1 Main St, Springfield, IL 62704, USA'',
      ''formatted_phone_number'' \<mapsto> ''555-0100'',
      ''website'' \<mapsto> ''https://example.com/page?x=1'']"



section \<open>Properties\<close>

subsection \<open>Splitting and joining\<close>

lemma str_split_nonempty: "str_split sep s \<noteq> []"
  by (induction sep s rule: str_split.induct) (auto split: list.splits)

lemma str_split_no_sep: "c \<notin> set x \<Longrightarrow> str_split [c] x = [x]"
  by (induction x) auto

lemma str_split_at_sep: "c \<notin> set x \<Longrightarrow> str_split [c] (x @ c # rest) = x # str_split [c] rest"
  by (induction x) auto

lemma str_split_join:
  "segs \<noteq> [] \<Longrightarrow> \<forall>s\<in>set segs. c \<notin> set s \<Longrightarrow> str_split [c] (str_join [c] segs) = segs"
  by (induction "[c]" segs rule: str_join.induct) (simp_all add: str_split_no_sep str_split_at_sep)

lemma str_join_Cons_hd: "str_join sep ((a # y) # ys) = a # str_join sep (y # ys)"
  by (cases ys) simp_all

lemma str_join_Nil_hd: "ys \<noteq> [] \<Longrightarrow> str_join sep ([] # ys) = sep @ str_join sep ys"
  by (cases ys) simp_all

lemma str_join_split_char: "str_join [c] (str_split [c] s) = s"
proof (induction s)
  case Nil
  show ?case by simp
next
  case (Cons a s)
  obtain y ys where y: "str_split [c] s = y # ys"
    using str_split_nonempty [of "[c]" s] by (cases "str_split [c] s") auto
  show ?case
  proof (cases "a = c")
    case True
    then show ?thesis using Cons y by (simp add: str_join_Nil_hd)
  next
    case False
    then show ?thesis using Cons y by (simp add: str_join_Cons_hd)
  qed
qed

lemma str_split_segments_free: "x \<in> set (str_split [c] s) \<Longrightarrow> c \<notin> set x"
proof (induction s arbitrary: x)
  case Nil
  then show ?case by simp
next
  case (Cons a s)
  obtain y ys where y: "str_split [c] s = y # ys"
    using str_split_nonempty [of "[c]" s] by (cases "str_split [c] s") auto
  have IH: "\<And>z. z \<in> set (y # ys) \<Longrightarrow> c \<notin> set z"
    using Cons.IH y by simp
  show ?case
  proof (cases "a = c")
    case True
    with Cons.prems y have "x = [] \<or> x \<in> set (y # ys)" by auto
    then show ?thesis using IH by auto
  next
    case False
    with Cons.prems y have "x = a # y \<or> x \<in> set ys" by auto
    then show ?thesis using IH False by auto
  qed
qed

text \<open>What \<open>strip\<close> removes and what it leaves.\<close>

lemma strip_decompose:
  "\<exists>l t. s = l @ strip s @ t \<and> list_all isspace l \<and> list_all isspace t"
proof -
  let ?m = "dropWhile isspace s"
  have 1: "s = takeWhile isspace s @ ?m" by simp
  have "rev (rev ?m) = rev (takeWhile isspace (rev ?m) @ dropWhile isspace (rev ?m))"
    by (simp only: takeWhile_dropWhile_id)
  then have 2: "?m = strip s @ rev (takeWhile isspace (rev ?m))"
    by (simp only: rev_rev_ident rev_append strip_def)
  have 3: "list_all isspace (takeWhile isspace s)"
    by (simp add: list_all_iff) (meson set_takeWhileD)
  have 4: "list_all isspace (rev (takeWhile isspace (rev ?m)))"
    by (simp add: list_all_iff) (meson set_takeWhileD)
  from 1 2 have "s = takeWhile isspace s @ strip s @ rev (takeWhile isspace (rev ?m))"
    by simp
  with 3 4 show ?thesis by blast
qed

lemma strip_ends:
  assumes ne: "strip s \<noteq> []"
  shows "\<not> isspace (hd (strip s)) \<and> \<not> isspace (last (strip s))"
proof -
  let ?m = "dropWhile isspace s"
  let ?d = "dropWhile isspace (rev ?m)"
  from ne have d: "?d \<noteq> []" by (simp add: strip_def)
  then have a: "\<not> isspace (hd ?d)" by (rule hd_dropWhile)
  have l: "last (strip s) = hd ?d" using d by (simp only: strip_def last_rev)
  have m: "?m \<noteq> []"
  proof
    assume "?m = []"
    then have "?d = []" by (simp only: rev.simps dropWhile.simps)
    with d show False by (simp only: not_True_eq_False)
  qed
  then have hm: "\<not> isspace (hd ?m)" by (rule hd_dropWhile)
  have "hd (strip s) = last ?d" using d by (simp only: strip_def hd_rev)
  also have "last ?d = last (rev ?m)"
    using d by (metis (no_types) append_Nil2 last_appendR takeWhile_dropWhile_id)
  also have "\<dots> = hd ?m" using m by (simp only: last_rev rev_rev_ident)
  finally show ?thesis using a l hm by simp
qed

subsection \<open>The address decomposer\<close>

text \<open>
  Claim C4. Every address is the comma-join of a non-empty list of segments that hold no
  comma, and for any such list the decomposition is: with at least two segments, the first
  segment trimmed, the inner segments trimmed and joined by a comma and a space, and the
  last segment trimmed; with one segment, the address itself, untrimmed, and two empty
  strings. The function is total: it has a value, of this shape, at every string.
\<close>

theorem parse_address_components_segments:
  "(\<exists>segs. segs \<noteq> [] \<and> (\<forall>s\<in>set segs. CHR '','' \<notin> set s) \<and> str_join '','' segs = a) \<and>
   (\<forall>segs. segs \<noteq> [] \<and> (\<forall>s\<in>set segs. CHR '','' \<notin> set s) \<and> str_join '','' segs = a \<longrightarrow>
      parse_address_components a =
        (if 2 \<le> length segs
         then \<lparr>addr1 = strip (hd segs),
               addr2 = str_join '', '' (map strip (butlast (tl segs))),
               addr4 = strip (last segs)\<rparr>
         else \<lparr>addr1 = a, addr2 = [], addr4 = []\<rparr>))"
proof (intro conjI allI impI)
  show "\<exists>segs. segs \<noteq> [] \<and> (\<forall>s\<in>set segs. CHR '','' \<notin> set s) \<and> str_join '','' segs = a"
    using str_split_nonempty [of "'',''" a] str_split_segments_free [of _ "CHR '',''" a]
      str_join_split_char [of "CHR '',''" a]
    by blast
next
  fix segs
  assume h: "segs \<noteq> [] \<and> (\<forall>s\<in>set segs. CHR '','' \<notin> set s) \<and> str_join '','' segs = a"
  then have split: "str_split '','' a = segs"
    using str_split_join [of segs "CHR '',''"] by auto
  from h have ne: "segs \<noteq> []" by simp
  show "parse_address_components a =
        (if 2 \<le> length segs
         then \<lparr>addr1 = strip (hd segs),
               addr2 = str_join '', '' (map strip (butlast (tl segs))),
               addr4 = strip (last segs)\<rparr>
         else \<lparr>addr1 = a, addr2 = [], addr4 = []\<rparr>)"
    using ne
    by (simp add: parse_address_components_def split Let_def hd_map last_map map_butlast map_tl)
qed

theorem parse_address_components_segments_witness:
  "str_join '','' [''123 Main St'', '' Springfield'', '' IL 62704'', '' USA'']
     = ''123 Main St, Springfield, IL 62704, USA'' \<and>
   parse_address_components ''123 Main St, Springfield, IL 62704, USA''
     = \<lparr>addr1 = ''123 Main St'', addr2 = ''Springfield, IL 62704'', addr4 = ''USA''\<rparr> \<and>
   parse_address_components '' Unit 5 '' = \<lparr>addr1 = '' Unit 5 '', addr2 = [], addr4 = []\<rparr>"
  using parse_address_components_segments [of "''123 Main St, Springfield, IL 62704, USA''",
      THEN conjunct2, rule_format,
      of "[''123 Main St'', '' Springfield'', '' IL 62704'', '' USA'']"]
    parse_address_components_segments [of "'' Unit 5 ''", THEN conjunct2, rule_format,
      of "['' Unit 5 '']"]
  by (simp add: strip_def isspace_def)

subsection \<open>The record merge\<close>

lemma row_get_default_upd:
  "row_get_default (r(k \<mapsto> v)) k' d = (if k' = k then v else row_get_default r k' d)"
  by (simp add: row_get_default_def)

lemma row_get_default_present: "r k = Some v \<Longrightarrow> row_get_default r k d = v"
  by (simp add: row_get_default_def)

lemma merge_phone_email_Some:
  "merge_phone_email (Some c) r =
     r(''phone'' \<mapsto> py_or (phone c) (row_get_default r ''phone'' []),
       ''shiphone'' \<mapsto> py_or (phone c) (row_get_default r ''shiphone'' []),
       ''email'' \<mapsto> py_or (email c) (row_get_default r ''email'' []),
       ''shipmail'' \<mapsto> py_or (email c) (row_get_default r ''shipmail'' []))"
  by (simp add: merge_phone_email_def Let_def row_get_default_upd)

lemma merge_address_Some:
  "address c = Some a \<Longrightarrow> a \<noteq> [] \<Longrightarrow>
   merge_address (Some c) r =
     r(''addr1'' \<mapsto> Some (addr1 (parse_address_components a)),
       ''addr2'' \<mapsto> Some (addr2 (parse_address_components a)),
       ''addr4'' \<mapsto> Some (addr4 (parse_address_components a)),
       ''shipaddr1'' \<mapsto> Some (addr1 (parse_address_components a)),
       ''shipaddr2'' \<mapsto> Some (addr2 (parse_address_components a)),
       ''shipaddr3'' \<mapsto> row_get_default r ''addr3'' [],
       ''shipaddr4'' \<mapsto> Some (addr4 (parse_address_components a)))"
  by (simp add: merge_address_def Let_def row_get_default_upd)

lemma merge_address_skip: "\<not> truthy (address c) \<Longrightarrow> merge_address (Some c) r = r"
  by (cases "address c") (simp_all add: merge_address_def)

lemma merge_None: "merge None r = r"
  by (simp add: merge_def merge_address_def merge_phone_email_def)

lemma py_or_idem: "py_or a (py_or a b) = py_or a b"
  by (simp add: py_or_def)

lemma merge_phone_email_idem:
  "merge_phone_email c (merge_phone_email c r) = merge_phone_email c r"
proof (cases c)
  case None
  then show ?thesis by (simp add: merge_phone_email_def)
next
  case (Some v)
  show ?thesis
    unfolding Some merge_phone_email_Some
    by (rule ext) (simp add: row_get_default_upd py_or_idem)
qed

lemma py_or_None: "py_or None b = b"
  by (simp add: py_or_def)

lemma merge_phone_email_empty:
  assumes "r ''phone'' \<noteq> None" "r ''shiphone'' \<noteq> None"
    and "r ''email'' \<noteq> None" "r ''shipmail'' \<noteq> None"
  shows "merge_phone_email (Some (empty_contact n)) r = r"
proof -
  from assms obtain a b c d where v: "r ''phone'' = Some a" "r ''shiphone'' = Some b"
    "r ''email'' = Some c" "r ''shipmail'' = Some d"
    by auto
  have e: "phone (empty_contact n) = None" "email (empty_contact n) = None"
    by (simp_all add: empty_contact_def)
  have g: "row_get_default r ''phone'' [] = a" "row_get_default r ''shiphone'' [] = b"
    "row_get_default r ''email'' [] = c" "row_get_default r ''shipmail'' [] = d"
    by (simp_all add: row_get_default_def v)
  show ?thesis
    unfolding merge_phone_email_Some e py_or_None g
    by (simp only: map_upd_triv v)
qed

lemma has_required_colsD:
  assumes "has_required_cols r"
  shows "r ''addr3'' \<noteq> None" "r ''phone'' \<noteq> None" "r ''shiphone'' \<noteq> None"
    "r ''email'' \<noteq> None" "r ''shipmail'' \<noteq> None"
  using assms by (simp_all add: has_required_cols_def required_cols_def)

lemma merge_empty_contact:
  assumes "has_required_cols r"
  shows "merge (Some (empty_contact n)) r = r"
proof -
  have a: "merge_address (Some (empty_contact n)) r = r"
    by (rule merge_address_skip) (simp add: empty_contact_def)
  have "merge_phone_email (Some (empty_contact n)) r = r"
    using has_required_colsD(2-5) [OF assms] by (rule merge_phone_email_empty)
  with a show ?thesis by (simp add: merge_def)
qed


text \<open>
  Claim C3. The merge is idempotent: merging the same contact (or no contact) a second
  time into a merged row gives the merged row again, in every field.
\<close>

theorem merge_idempotent: "merge contact (merge contact r) = merge contact r"
proof (cases contact)
  case None
  then show ?thesis by (simp add: merge_None)
next
  case (Some c)
  show ?thesis
  proof (cases "truthy (address c)")
    case False
    then show ?thesis
      unfolding Some merge_def by (simp add: merge_address_skip merge_phone_email_idem)
  next
    case True
    then obtain a where a: "address c = Some a" "a \<noteq> []"
      by (cases "address c") auto
    show ?thesis
      unfolding Some merge_def merge_address_Some [OF a] merge_phone_email_Some
      by (rule ext) (simp add: row_get_default_upd py_or_idem)
  qed
qed

lemma parse_demo:
  "parse_address_components ''1 Main St, Springfield, IL 62704, USA''
    = \<lparr>addr1 = ''1 Main St'', addr2 = ''Springfield, IL 62704'', addr4 = ''USA''\<rparr>"
  by (simp add: parse_address_components_def strip_def isspace_def)

lemma demo_contact_address:
  "address demo_contact = Some ''1 Main St, Springfield, IL 62704, USA''"
  by (simp add: demo_contact_def)

lemma merge_demo:
  "merge (Some demo_contact) demo_row ''addr1'' = Some (Some ''1 Main St'')"
  "merge (Some demo_contact) demo_row ''addr3'' = Some (Some ''Suite 4'')"
  "merge (Some demo_contact) demo_row ''shipaddr3'' = Some (Some ''Suite 4'')"
  "merge (Some demo_contact) demo_row ''phone'' = Some (Some ''555-0100'')"
  "merge (Some demo_contact) demo_row ''email'' = Some (Some ''old@example.com'')"
  "merge (Some demo_contact) demo_row ''shipmail'' = Some None"
  unfolding merge_def merge_address_Some [OF demo_contact_address, simplified] merge_phone_email_Some
  by (simp_all add: parse_demo py_or_def row_get_default_def demo_row_def demo_contact_def)

theorem merge_idempotent_witness:
  "merge (Some demo_contact) (merge (Some demo_contact) demo_row) ''addr1'' = Some (Some ''1 Main St'') \<and>
   merge (Some demo_contact) (merge (Some demo_contact) demo_row) ''shipaddr3'' = Some (Some ''Suite 4'') \<and>
   merge (Some demo_contact) (merge (Some demo_contact) demo_row) ''phone'' = Some (Some ''555-0100'') \<and>
   merge (Some demo_contact) (merge (Some demo_contact) demo_row) ''email'' = Some (Some ''old@example.com'') \<and>
   merge (Some demo_contact) (merge (Some demo_contact) demo_row) ''shipmail'' = Some None"
  using merge_idempotent [of "Some demo_contact" demo_row]
  by (simp add: merge_demo)

text \<open>
  Claim C5. The merge never writes addr3: the field is after the merge what it was before,
  for every row and every contact. When the contact has an address (a true one: not
  \<^verbatim>\<open>None\<close> and not the empty string, as \<^verbatim>\<open>contact.address\<close> is tested) and the row has
  the column addr3, shipaddr3 holds after the merge what addr3 held before it.
\<close>

theorem merge_keeps_addr3:
  "merge contact r ''addr3'' = r ''addr3'' \<and>
   (\<forall>c. contact = Some c \<and> truthy (address c) \<and> r ''addr3'' \<noteq> None \<longrightarrow>
        merge contact r ''shipaddr3'' = r ''addr3'')"
proof (intro conjI allI impI)
  show "merge contact r ''addr3'' = r ''addr3''"
  proof (cases contact)
    case None
    then show ?thesis by (simp add: merge_None)
  next
    case (Some c)
    show ?thesis
    proof (cases "truthy (address c)")
      case False
      then show ?thesis
        unfolding Some merge_def by (simp add: merge_address_skip merge_phone_email_Some)
    next
      case True
      then obtain a where a: "address c = Some a" "a \<noteq> []"
        by (cases "address c") auto
      show ?thesis
        unfolding Some merge_def merge_address_Some [OF a] merge_phone_email_Some by simp
    qed
  qed
next
  fix c
  assume h: "contact = Some c \<and> truthy (address c) \<and> r ''addr3'' \<noteq> None"
  then obtain a where a: "address c = Some a" "a \<noteq> []"
    by (cases "address c") auto
  from h obtain v where v: "r ''addr3'' = Some v" by auto
  from h have c: "contact = Some c" by simp
  show "merge contact r ''shipaddr3'' = r ''addr3''"
    unfolding c merge_def merge_address_Some [OF a] merge_phone_email_Some
    by (simp add: v row_get_default_def)
qed

theorem merge_keeps_addr3_witness:
  "truthy (address demo_contact) \<and> demo_row ''addr3'' = Some (Some ''Suite 4'') \<and>
   merge (Some demo_contact) demo_row ''addr3'' = Some (Some ''Suite 4'') \<and>
   merge (Some demo_contact) demo_row ''shipaddr3'' = Some (Some ''Suite 4'')"
  using merge_keeps_addr3 [of "Some demo_contact" demo_row]
  by (simp add: demo_contact_address merge_demo demo_row_def)

text \<open>
  Where the row has no addr3 key, \<^verbatim>\<open>row.get('addr3', '')\<close> gives the empty string; where
  the address is the empty string, the address block is skipped.
\<close>

lemma merge_shipaddr3_no_addr3:
  "address c = Some a \<Longrightarrow> a \<noteq> [] \<Longrightarrow> r ''addr3'' = None \<Longrightarrow>
   merge (Some c) r ''shipaddr3'' = Some (Some [])"
  by (simp add: merge_def merge_address_Some merge_phone_email_Some row_get_default_def)

lemma merge_empty_address:
  "address c = Some [] \<Longrightarrow> merge (Some c) r ''shipaddr3'' = r ''shipaddr3''"
  by (simp add: merge_def merge_address_skip merge_phone_email_Some)


subsection \<open>The batch lookup\<close>

lemma contact_stage_name: "contact_stage W nm det w = (Inr c, w') \<Longrightarrow> name c = nm"
  by (auto simp: contact_stage_def Let_def split: option.splits sum.splits if_splits prod.splits)


lemma lookup_body_name:
  "lookup_body W lat lng radius api_key nm w = (Inr c, w') \<Longrightarrow> name c = nm"
  by (auto simp: lookup_body_def empty_contact_def contact_stage_name
           split: option.splits sum.splits prod.splits)


lemma lookup_loop_Cons:
  "lookup_loop W lat lng radius api_key (nm # names) results w =
     lookup_loop W lat lng radius api_key names
       (results(nm \<mapsto> stored_contact W lat lng radius api_key nm w))
       (snd (lookup_body W lat lng radius api_key nm w))"
  by (simp add: stored_contact_def split: prod.splits sum.splits)

lemma stored_contact_name: "name (stored_contact W lat lng radius api_key nm w) = nm"
proof (cases "lookup_body W lat lng radius api_key nm w")
  case (Pair res w')
  then show ?thesis
    by (cases res) (simp_all add: stored_contact_def empty_contact_def lookup_body_name)
qed

lemma lookup_loop_dom:
  "dom (fst (lookup_loop W lat lng radius api_key names results w)) = dom results \<union> set names"
proof (induction names arbitrary: results w)
  case Nil
  show ?case by simp
next
  case (Cons nm names)
  show ?case
    unfolding lookup_loop_Cons Cons.IH by auto
qed

lemma lookup_loop_names:
  "\<forall>n c. results n = Some c \<longrightarrow> name c = n \<Longrightarrow>
   fst (lookup_loop W lat lng radius api_key names results w) n = Some c \<Longrightarrow> name c = n"
proof (induction names arbitrary: results w)
  case Nil
  then show ?case by simp
next
  case (Cons nm names)
  let ?results = "results(nm \<mapsto> stored_contact W lat lng radius api_key nm w)"
  have "\<forall>n c. ?results n = Some c \<longrightarrow> name c = n"
    using Cons.prems(1) by (simp add: stored_contact_name)
  moreover have "fst (lookup_loop W lat lng radius api_key names ?results
      (snd (lookup_body W lat lng radius api_key nm w))) n = Some c"
    using Cons.prems(2) unfolding lookup_loop_Cons .
  ultimately show ?case by (rule Cons.IH)
qed

lemma lookup_loop_append:
  "lookup_loop W lat lng radius api_key (xs @ ys) results w =
     lookup_loop W lat lng radius api_key ys
       (fst (lookup_loop W lat lng radius api_key xs results w))
       (snd (lookup_loop W lat lng radius api_key xs results w))"
proof (induction xs arbitrary: results w)
  case Nil
  show ?case by simp
next
  case (Cons x xs)
  show ?case
    unfolding append_Cons lookup_loop_Cons Cons.IH ..
qed

lemma lookup_loop_other:
  "n \<notin> set names \<Longrightarrow> fst (lookup_loop W lat lng radius api_key names results w) n = results n"
proof (induction names arbitrary: results w)
  case Nil
  show ?case by simp
next
  case (Cons nm names)
  from Cons.prems have "n \<notin> set names" "n \<noteq> nm" by auto
  then show ?case
    unfolding lookup_loop_Cons by (simp add: Cons.IH)
qed

lemma demo_clean_domain:
  "clean_domain demo_world ''https://example.com/page?x=1'' = Inr ''https://example.com''"
  "clean_domain demo_world ''example.com/path'' = Inr ''://''"
  "clean_domain demo_world ''//example.com/path'' = Inr ''://example.com''"
  by (simp_all add: clean_domain_def urlparse_def Let_def str_find_def c0_control_or_space_def
        unsafe_url_byte_def ascii_alpha_def scheme_char_def lower_char_def)

lemma demo_mailto: "mailto_address ''mailto:info@example.com?subject=Hello'' = Inr ''info@example.com''"
  by (simp add: mailto_address_def)

lemma demo_extract:
  "extract_email_from_website demo_world ''https://example.com'' n = (Some ''info@example.com'', Suc n)"
  "extract_email_from_website demo_world ''://'' n = (None, Suc n)"
  by (simp_all add: extract_email_from_website_def scrape_email_def demo_world_def
        raise_for_status_def select_one_mailto_def demo_mailto)

lemma demo_search:
  "search_stage demo_world lat lng radius key ''Acme'' n = (Inr (Some ''p1''), Suc n)"
  "search_stage demo_world lat lng radius key ''Bare'' n = (Inr (Some ''p2''), Suc n)"
  "search_stage demo_world lat lng radius key ''Ghost'' n = (Inr None, Suc n)"
  "search_stage demo_world lat lng radius key ''Down'' n = (Inl (LibraryError ''ConnectionError''), Suc n)"
  by (simp_all add: search_stage_def demo_world_def raise_for_status_def)

lemma demo_details_stage:
  "details_stage demo_world ''p1'' key n = (Inr demo_details, Suc n)"
  "details_stage demo_world ''p2'' key n = (Inr [''website'' \<mapsto> ''example.com/path''], Suc n)"
  by (simp_all add: details_stage_def demo_world_def demo_details_def)

lemma demo_contact_stage:
  "contact_stage demo_world ''Acme'' demo_details n =
     (Inr \<lparr>name = ''Acme'', address = Some ''1 Main St, Springfield, IL 62704, USA'',
           phone = Some ''555-0100'', email = Some ''info@example.com'',
           website = Some ''https://example.com''\<rparr>, Suc n)"
  "contact_stage demo_world ''Bare'' [''website'' \<mapsto> ''example.com/path''] n =
     (Inr \<lparr>name = ''Bare'', address = None, phone = None, email = None,
           website = Some ''://''\<rparr>, Suc n)"
  by (simp_all add: contact_stage_def demo_details_def demo_clean_domain demo_extract)

lemma demo_lookup_body:
  "lookup_body demo_world lat lng radius key ''Acme'' n =
     (Inr \<lparr>name = ''Acme'', address = Some ''1 Main St, Springfield, IL 62704, USA'',
           phone = Some ''555-0100'', email = Some ''info@example.com'',
           website = Some ''https://example.com''\<rparr>, Suc (Suc (Suc n)))"
  "lookup_body demo_world lat lng radius key ''Ghost'' n = (Inr (empty_contact ''Ghost''), Suc n)"
  "lookup_body demo_world lat lng radius key ''Down'' n =
     (Inl (LibraryError ''ConnectionError''), Suc n)"
  by (simp_all add: lookup_body_def demo_search demo_details_stage demo_contact_stage)

lemma demo_key: "resolve_api_key demo_world None = Some ''secret''"
  by (simp add: resolve_api_key_def py_or_def demo_world_def)

lemma demo_geocode: "geocode_location demo_world place n = (Inr (38, - 86), Suc n)"
  by (simp add: geocode_location_def demo_world_def)

text \<open>
  Claim C1. When a key is found and the geocoding step succeeds, \<open>find_vendor_contacts\<close>
  returns a dictionary whose keys are exactly the names given, each name mapped to a
  contact that carries this name; nothing is assumed of the lookups, which may all fail.
  (The key is looked up before the geocoder is called, so that the geocoding step takes
  place only when there is a key.)
\<close>

theorem find_vendor_contacts_keys:
  assumes "resolve_api_key W google_api_key = Some api_key" and "api_key \<noteq> []"
    and "geocode_location W
           (case location_str of
              None \<Rightarrow> ''New Albany, Indiana, United States''
            | Some given \<Rightarrow> given) w = (Inr anchor, w1)"
  shows "\<exists>results w2.
           find_vendor_contacts W vendor_names location_str radius google_api_key w
             = (Inr results, w2) \<and>
           dom results = set vendor_names \<and>
           (\<forall>n\<in>set vendor_names. \<exists>c. results n = Some c \<and> name c = n)"
proof -
  obtain lat lng where anchor: "anchor = (lat, lng)" by (cases anchor)
  let ?loop = "lookup_loop W lat lng radius api_key vendor_names Map.empty w1"
  have run: "find_vendor_contacts W vendor_names location_str radius google_api_key w
               = (Inr (fst ?loop), snd ?loop)"
    using assms anchor by (simp add: find_vendor_contacts_def Let_def split: prod.splits)
  have keys: "dom (fst ?loop) = set vendor_names"
    by (simp add: lookup_loop_dom)
  have "\<exists>c. fst ?loop n = Some c \<and> name c = n" if "n \<in> set vendor_names" for n
  proof -
    from that keys obtain c where c: "fst ?loop n = Some c" by blast
    then have "name c = n" by (rule lookup_loop_names [rotated]) simp
    with c show ?thesis by simp
  qed
  with run keys show ?thesis by blast
qed

lemma demo_loop:
  "lookup_loop demo_world lat lng radius key [''Acme'', ''Down'', ''Ghost''] Map.empty n =
     ([''Acme'' \<mapsto> \<lparr>name = ''Acme'', address = Some ''1 Main St, Springfield, IL 62704, USA'',
           phone = Some ''555-0100'', email = Some ''info@example.com'',
           website = Some ''https://example.com''\<rparr>,
       ''Down'' \<mapsto> empty_contact ''Down'', ''Ghost'' \<mapsto> empty_contact ''Ghost''],
      Suc (Suc (Suc (Suc (Suc n)))))"
  by (simp add: demo_lookup_body)

theorem find_vendor_contacts_keys_witness:
  "resolve_api_key demo_world None = Some ''secret'' \<and>
   geocode_location demo_world ''New Albany, Indiana, United States'' 0 = (Inr (38, - 86), 1) \<and>
   (\<exists>results w2.
      find_vendor_contacts demo_world [''Acme'', ''Down'', ''Ghost''] None 5000 None 0
        = (Inr results, w2) \<and>
      dom results = {''Acme'', ''Down'', ''Ghost''} \<and>
      map_option name (results ''Down'') = Some ''Down'')"
  using find_vendor_contacts_keys [of demo_world None "''secret''" None 0 "(38, - 86)" 1
      "[''Acme'', ''Down'', ''Ghost'']" 5000]
  by (simp add: demo_key demo_geocode) force

text \<open>Where an exception of the \<^verbatim>\<open>try\<close> block comes from.\<close>

lemma search_stage_failures:
  "get_textsearch W nm (lat, lng) radius api_key w = (Inl e, w') \<Longrightarrow>
     search_stage W lat lng radius api_key nm w = (Inl e, w')"
  "get_textsearch W nm (lat, lng) radius api_key w = (Inr resp, w') \<Longrightarrow>
     raise_for_status resp = Inl e \<Longrightarrow>
     search_stage W lat lng radius api_key nm w = (Inl e, w')"
  "get_textsearch W nm (lat, lng) radius api_key w = (Inr resp, w') \<Longrightarrow>
     raise_for_status resp = Inr () \<Longrightarrow> body_json resp = Inl e \<Longrightarrow>
     search_stage W lat lng radius api_key nm w = (Inl e, w')"
  "get_textsearch W nm (lat, lng) radius api_key w = (Inr resp, w') \<Longrightarrow>
     raise_for_status resp = Inr () \<Longrightarrow> body_json resp = Inr (Some (item # items)) \<Longrightarrow>
     item ''place_id'' = None \<Longrightarrow>
     search_stage W lat lng radius api_key nm w = (Inl KeyError, w')"
  by (simp_all add: search_stage_def)

lemma details_stage_failures:
  "get_details W place_id api_key w = (Inl e, w') \<Longrightarrow>
     details_stage W place_id api_key w = (Inl e, w')"
  "get_details W place_id api_key w = (Inr resp, w') \<Longrightarrow> body_json resp = Inl e \<Longrightarrow>
     details_stage W place_id api_key w = (Inl e, w')"
  by (simp_all add: details_stage_def)

lemma lookup_body_failures:
  "search_stage W lat lng radius api_key nm w = (Inl e, w') \<Longrightarrow>
     lookup_body W lat lng radius api_key nm w = (Inl e, w')"
  "search_stage W lat lng radius api_key nm w = (Inr (Some place_id), w1) \<Longrightarrow>
     details_stage W place_id api_key w1 = (Inl e, w') \<Longrightarrow>
     lookup_body W lat lng radius api_key nm w = (Inl e, w')"
  "search_stage W lat lng radius api_key nm w = (Inr (Some place_id), w1) \<Longrightarrow>
     details_stage W place_id api_key w1 = (Inr det, w2) \<Longrightarrow>
     contact_stage W nm det w2 = (Inl e, w') \<Longrightarrow>
     lookup_body W lat lng radius api_key nm w = (Inl e, w')"
  by (simp_all add: lookup_body_def)

text \<open>
  Claim C2. An exception that leaves the \<^verbatim>\<open>try\<close> block of a name (raised in its search
  stage or in its details stage, or after them) is caught in that turn of the loop: the
  empty contact is stored under the name and the loop goes on with the names after it, all
  of which end up as keys of the result; the empty contact stays under the failing name
  unless the same name is looked up again later in the list. The exception goes no
  further: the value of the loop is a dictionary and a world, whatever the lookups do.
\<close>

theorem lookup_failure_isolated:
  assumes "lookup_loop W lat lng radius api_key before results w = (results1, w1)"
    and "search_stage W lat lng radius api_key nm w1 = (Inl e, w2) \<or>
         (\<exists>place_id w'. search_stage W lat lng radius api_key nm w1 = (Inr (Some place_id), w') \<and>
                        details_stage W place_id api_key w' = (Inl e, w2)) \<or>
         lookup_body W lat lng radius api_key nm w1 = (Inl e, w2)"
  shows "lookup_loop W lat lng radius api_key (before @ nm # after) results w =
           lookup_loop W lat lng radius api_key after (results1(nm \<mapsto> empty_contact nm)) w2 \<and>
         set after \<subseteq> dom (fst (lookup_loop W lat lng radius api_key (before @ nm # after) results w)) \<and>
         (nm \<notin> set after \<longrightarrow>
            fst (lookup_loop W lat lng radius api_key (before @ nm # after) results w) nm
              = Some \<lparr>name = nm, address = None, phone = None, email = None, website = None\<rparr>)"
proof -
  from assms(2) have body: "lookup_body W lat lng radius api_key nm w1 = (Inl e, w2)"
    by (elim disjE exE conjE) (simp_all add: lookup_body_def)
  have step: "lookup_loop W lat lng radius api_key (before @ nm # after) results w =
      lookup_loop W lat lng radius api_key after (results1(nm \<mapsto> empty_contact nm)) w2"
    unfolding lookup_loop_append using assms(1) body by simp
  have "set after \<subseteq> dom (fst (lookup_loop W lat lng radius api_key (before @ nm # after) results w))"
    unfolding step lookup_loop_dom by auto
  moreover have "fst (lookup_loop W lat lng radius api_key (before @ nm # after) results w) nm
      = Some \<lparr>name = nm, address = None, phone = None, email = None, website = None\<rparr>"
    if "nm \<notin> set after"
    unfolding step using that by (simp add: lookup_loop_other empty_contact_def)
  ultimately show ?thesis using step by simp
qed

theorem lookup_failure_isolated_witness:
  "lookup_loop demo_world 38 (- 86) 5000 ''secret'' [''Acme''] Map.empty 1
     = ([''Acme'' \<mapsto> \<lparr>name = ''Acme'', address = Some ''1 Main St, Springfield, IL 62704, USA'',
           phone = Some ''555-0100'', email = Some ''info@example.com'',
           website = Some ''https://example.com''\<rparr>], 4) \<and>
   search_stage demo_world 38 (- 86) 5000 ''secret'' ''Down'' 4
     = (Inl (LibraryError ''ConnectionError''), 5) \<and>
   fst (lookup_loop demo_world 38 (- 86) 5000 ''secret'' ([''Acme''] @ ''Down'' # [''Ghost''])
          Map.empty 1) ''Down''
     = Some \<lparr>name = ''Down'', address = None, phone = None, email = None, website = None\<rparr> \<and>
   fst (lookup_loop demo_world 38 (- 86) 5000 ''secret'' ([''Acme''] @ ''Down'' # [''Ghost''])
          Map.empty 1) ''Ghost''
     = Some \<lparr>name = ''Ghost'', address = None, phone = None, email = None, website = None\<rparr>"
  using lookup_failure_isolated [of demo_world 38 "- 86" 5000 "''secret''" "[''Acme'']" Map.empty 1
      "[''Acme'' \<mapsto> \<lparr>name = ''Acme'', address = Some ''1 Main St, Springfield, IL 62704, USA'',
           phone = Some ''555-0100'', email = Some ''info@example.com'',
           website = Some ''https://example.com''\<rparr>]" 4 "''Down''"
      "LibraryError ''ConnectionError''" 5 "[''Ghost'']"]
  by (simp add: demo_lookup_body demo_search empty_contact_def eval_nat_numeral)

text \<open>
  Claim C6. When the text search answers with no candidate (an empty list under
  \<^verbatim>\<open>"results"\<close>, or no such key), the \<^verbatim>\<open>try\<close> block yields, and the loop stores under
  the name, the contact with the name set and address, phone, email and website absent; and
  merging this contact into a row that has the required columns leaves the row as it was,
  in every field.
\<close>

theorem zero_candidates_empty_contact:
  assumes "get_textsearch W nm (lat, lng) radius api_key w = (Inr resp, w1)"
    and "raise_for_status resp = Inr ()"
    and "body_json resp = Inr body" and "body = None \<or> body = Some []"
  shows "lookup_body W lat lng radius api_key nm w =
           (Inr \<lparr>name = nm, address = None, phone = None, email = None, website = None\<rparr>, w1) \<and>
         lookup_loop W lat lng radius api_key (nm # names) results w =
           lookup_loop W lat lng radius api_key names
             (results(nm \<mapsto> \<lparr>name = nm, address = None, phone = None, email = None,
                              website = None\<rparr>)) w1 \<and>
         (has_required_cols r \<longrightarrow>
            merge (Some \<lparr>name = nm, address = None, phone = None, email = None,
                         website = None\<rparr>) r = r)"
proof -
  from assms have "search_stage W lat lng radius api_key nm w = (Inr None, w1)"
    by (auto simp: search_stage_def)
  then have body: "lookup_body W lat lng radius api_key nm w = (Inr (empty_contact nm), w1)"
    by (simp add: lookup_body_def)
  then have "lookup_loop W lat lng radius api_key (nm # names) results w =
      lookup_loop W lat lng radius api_key names (results(nm \<mapsto> empty_contact nm)) w1"
    by simp
  with body show ?thesis
    using merge_empty_contact [of r nm] by (simp add: empty_contact_def)
qed

lemma demo_row_cols: "has_required_cols demo_row"
  by (simp add: has_required_cols_def required_cols_def demo_row_def)

theorem zero_candidates_empty_contact_witness:
  "get_textsearch demo_world ''Ghost'' (38, - 86) 5000 ''secret'' 1
     = (Inr \<lparr>status_code = 200, body_text = [], body_json = Inr (Some [])\<rparr>, 2) \<and>
   has_required_cols demo_row \<and>
   lookup_body demo_world 38 (- 86) 5000 ''secret'' ''Ghost'' 1
     = (Inr \<lparr>name = ''Ghost'', address = None, phone = None, email = None, website = None\<rparr>, 2) \<and>
   merge (Some \<lparr>name = ''Ghost'', address = None, phone = None, email = None, website = None\<rparr>)
     demo_row = demo_row"
  using zero_candidates_empty_contact [of demo_world "''Ghost''" 38 "- 86" 5000 "''secret''" 1
      "\<lparr>status_code = 200, body_text = [], body_json = Inr (Some [])\<rparr>" 2 "Some []"
      "[]" Map.empty demo_row]
  by (simp add: demo_row_cols raise_for_status_def) (simp add: demo_world_def)

subsection \<open>The website email scraper\<close>


















subsection \<open>Website normalisation\<close>




lemma contact_stage_website:
  assumes "det ''website'' = Some raw" and "raw \<noteq> []" and "clean_domain W raw = Inr site"
  shows "contact_stage W nm det w =
           (Inr \<lparr>name = nm, address = det ''formatted_address'',
                 phone = det ''formatted_phone_number'',
                 email = (if site = [] then None else fst (extract_email_from_website W site w)),
                 website = Some site\<rparr>,
            if site = [] then w else snd (extract_email_from_website W site w))"
  using assms by (simp add: contact_stage_def Let_def split: prod.splits)

lemma clean_domain_nonempty: "clean_domain W raw = Inr site \<Longrightarrow> site \<noteq> []"
  by (auto simp: clean_domain_def split: sum.splits)






lemma member_nonempty: "x \<in> set xs \<Longrightarrow> xs \<noteq> []"
  by (cases xs) simp_all

lemma urlparse_no_scheme:
  assumes "urlparse W raw = Inr parts" and "scheme parts = []"
    and "take 2 (filter (\<lambda>c. \<not> unsafe_url_byte c) (dropWhile c0_control_or_space raw)) \<noteq> ''//''"
  shows "netloc parts = []"
proof -
  let ?url1 = "filter (\<lambda>c. \<not> unsafe_url_byte c) (dropWhile c0_control_or_space raw)"
  let ?i = "str_find CHR '':'' ?url1"
  let ?found = "?i > 0 \<and> ascii_alpha (hd ?url1) \<and> list_all scheme_char (take (nat ?i) ?url1)"
  show ?thesis
  proof (cases ?found)
    case True
    then have "CHR '':'' \<in> set ?url1"
      by (auto simp: str_find_def split: if_splits)
    then have "?url1 \<noteq> []" by (rule member_nonempty)
    with True have "map lower_char (take (nat ?i) ?url1) \<noteq> []" by auto
    moreover from True assms(1) have "scheme parts = map lower_char (take (nat ?i) ?url1)"
      by (auto simp: urlparse_def Let_def split: if_splits)
    ultimately show ?thesis using assms(2) by simp
  next
    case False
    with assms(1,3) show ?thesis
      by (auto simp: urlparse_def Let_def split: if_splits)
  qed
qed

text \<open>
  Claim C10, as the code has it. The canonical website is the scheme and the network
  location that \<open>urlparse\<close> finds, put together as scheme + \<^verbatim>\<open>://\<close> + location. For a URL
  in which \<open>urlparse\<close> finds no scheme and which, once its leading control characters and
  spaces and its tabs and line breaks are removed, does not start with two slashes, this is
  the string \<^verbatim>\<open>://\<close>; it is not empty, so that the contact built from details with
  such a website holds \<^verbatim>\<open>://\<close> as its website and the scraper is called on it. (A URL
  without scheme that starts with two slashes keeps its network location.)
\<close>

theorem clean_domain_without_scheme:
  assumes "urlparse W raw = Inr parts" and "scheme parts = []"
    and "take 2 (filter (\<lambda>c. \<not> unsafe_url_byte c) (dropWhile c0_control_or_space raw)) \<noteq> ''//''"
    and "raw \<noteq> []" and "det ''website'' = Some raw"
  shows "clean_domain W raw = Inr (scheme parts @ ''://'' @ netloc parts) \<and>
         clean_domain W raw = Inr ''://'' \<and>
         contact_stage W nm det w =
           (Inr \<lparr>name = nm, address = det ''formatted_address'',
                 phone = det ''formatted_phone_number'',
                 email = fst (extract_email_from_website W ''://'' w),
                 website = Some ''://''\<rparr>,
            snd (extract_email_from_website W ''://'' w))"
proof -
  have "netloc parts = []" using assms(1-3) by (rule urlparse_no_scheme)
  with assms(1,2) have 1: "clean_domain W raw = Inr (scheme parts @ ''://'' @ netloc parts)"
    and 2: "clean_domain W raw = Inr ''://''"
    by (simp_all add: clean_domain_def)
  from contact_stage_website [of det raw W "''://''" nm w] assms(4,5) 2 have
    "contact_stage W nm det w =
           (Inr \<lparr>name = nm, address = det ''formatted_address'',
                 phone = det ''formatted_phone_number'',
                 email = fst (extract_email_from_website W ''://'' w),
                 website = Some ''://''\<rparr>,
            snd (extract_email_from_website W ''://'' w))"
    by simp
  with 1 2 show ?thesis by simp
qed

lemma demo_urlparse:
  "urlparse demo_world ''example.com/path'' = Inr \<lparr>scheme = [], netloc = []\<rparr>"
  "urlparse demo_world ''//example.com/path'' = Inr \<lparr>scheme = [], netloc = ''example.com''\<rparr>"
  by (simp_all add: urlparse_def Let_def str_find_def c0_control_or_space_def
        unsafe_url_byte_def ascii_alpha_def scheme_char_def)

theorem clean_domain_without_scheme_witness:
  "urlparse demo_world ''example.com/path'' = Inr \<lparr>scheme = [], netloc = []\<rparr> \<and>
   clean_domain demo_world ''example.com/path'' = Inr ''://'' \<and>
   extract_email_from_website demo_world ''://'' 3 = (None, 4) \<and>
   contact_stage demo_world ''Bare'' [''website'' \<mapsto> ''example.com/path''] 3 =
     (Inr \<lparr>name = ''Bare'', address = None, phone = None, email = None,
            website = Some ''://''\<rparr>, 4)"
  using clean_domain_without_scheme [of demo_world "''example.com/path''"
      "\<lparr>scheme = [], netloc = []\<rparr>" "[''website'' \<mapsto> ''example.com/path'']" "''Bare''" 3]
  by (simp add: demo_urlparse demo_extract c0_control_or_space_def unsafe_url_byte_def)

theorem clean_domain_without_scheme_counterexample:
  "urlparse demo_world ''//example.com/path'' = Inr \<lparr>scheme = [], netloc = ''example.com''\<rparr> \<and>
   clean_domain demo_world ''//example.com/path'' = Inr ''://example.com'' \<and>
   clean_domain demo_world ''//example.com/path'' \<noteq> Inr ''://''"
  by (simp add: demo_urlparse clean_domain_def)

subsection \<open>The rows of the vendor table\<close>












end
